theory Spec2Isabelle
  imports Complex_Main
begin

section \<open>The stress tensor of \<^verbatim>\<open>Stress.py\<close>\<close>

text \<open>
  The class \<^verbatim>\<open>StressTensor\<close> stores six scalars. The specification's data model
  calls them real-valued, and they are real numbers here: the arithmetic of the
  embedding is exact, and the rounding, overflow and NaN of IEEE doubles are outside it.
\<close>

datatype py_error = AttributeError | ValueError | IndexError

record StressTensor =
  sx :: real
  sy :: real
  sz :: real
  sxy :: real
  syz :: real
  szx :: real

text \<open>\<^verbatim>\<open>__init__\<close>: the six arguments are stored as they come, with no validation.\<close>

definition init :: "real \<Rightarrow> real \<Rightarrow> real \<Rightarrow> real \<Rightarrow> real \<Rightarrow> real \<Rightarrow> StressTensor" where
  "init x y z xy yz zx = \<lparr>sx = x, sy = y, sz = z, sxy = xy, syz = yz, szx = zx\<rparr>"

definition stressComponents :: "StressTensor \<Rightarrow> real list" where
  "stressComponents self = [sx self, sy self, sz self, sxy self, syz self, szx self]"

definition stressTensor :: "StressTensor \<Rightarrow> real list list" where
  "stressTensor self =
     [[sx self, sxy self, szx self],
      [sxy self, sy self, syz self],
      [szx self, syz self, sz self]]"

text \<open>
  \<^verbatim>\<open>HuberStress\<close>, with the three local squares of the source and the
  radicand written as in the return statement.
\<close>

definition HuberStress :: "StressTensor \<Rightarrow> real" where
  "HuberStress self =
     (let sx_diff = (sx self - sy self)\<^sup>2;
          sy_diff = (sy self - sz self)\<^sup>2;
          sz_diff = (sz self - sx self)\<^sup>2
      in sqrt (0.5 * (sx_diff + sy_diff + sz_diff)
               + 3 * ((sxy self)\<^sup>2 + (syz self)\<^sup>2 + (szx self)\<^sup>2)))"

text \<open>The static helper \<^verbatim>\<open>_calcMises\<close>.\<close>

definition calcMises :: "real \<Rightarrow> real \<Rightarrow> real \<Rightarrow> real \<Rightarrow> real \<Rightarrow> real \<Rightarrow> real" where
  "calcMises x y z xy yz zx =
     sqrt ((x - y)\<^sup>2 + (y - z)\<^sup>2 + (z - x)\<^sup>2 + 6 * (xy\<^sup>2 + yz\<^sup>2 + zx\<^sup>2))"

text \<open>
  \<^verbatim>\<open>calculateWalker\<close>. The two comprehensions run over the zipped component
  lists; each sequence is then unpacked into six names, which raises \<^verbatim>\<open>ValueError\<close>
  in Python when the length is not six. \<^verbatim>\<open>np.sign\<close> of the three-element list
  is a three-element array, and multiplying and dividing it by scalars acts on every
  entry, so \<^verbatim>\<open>sm\<close> and \<^verbatim>\<open>sa\<close> are lists of three numbers. Only \<^verbatim>\<open>sa\<close> is
  returned.
\<close>

definition calculateWalker :: "StressTensor \<Rightarrow> StressTensor \<Rightarrow> py_error + real list" where
  "calculateWalker self tensor =
     (let sm_comp = map (\<lambda>(cmp1, cmp2). (cmp1 + cmp2) / 2)
                        (zip (stressComponents self) (stressComponents tensor));
          sa_comp = map (\<lambda>(cmp1, cmp2). (cmp1 - cmp2) / 2)
                        (zip (stressComponents self) (stressComponents tensor))
      in case sm_comp of
           [s_mx, s_my, s_mz, s_mxy, s_myz, s_mzx] \<Rightarrow>
             (case sa_comp of
                [s_ax, s_ay, s_az, s_axy, s_ayz, s_azx] \<Rightarrow>
                  (let sm = map (\<lambda>s. sgn s * sqrt 2 / 2
                                       * calcMises s_mx s_my s_mz s_mxy s_myz s_mzx)
                                [s_mx, s_my, s_mz];
                       sa = map (\<lambda>s. sgn s * sqrt 2 / 2
                                       * calcMises s_ax s_ay s_az s_axy s_ayz s_azx)
                                [s_ax, s_ay, s_az]
                   in Inr sa)
              | _ \<Rightarrow> Inl ValueError)
         | _ \<Rightarrow> Inl ValueError)"

section \<open>Principal stresses\<close>

text \<open>
  \<^verbatim>\<open>np.linalg.eigvals\<close> belongs to numpy, not to this program: the accessors take
  it as a parameter, a function from a matrix to the array of its eigenvalues, and
  nothing is assumed about it.
\<close>

type_synonym eigsolver = "real list list \<Rightarrow> real list"

definition principals :: "eigsolver \<Rightarrow> StressTensor \<Rightarrow> real list" where
  "principals eigvals self = eigvals (stressTensor self)"

text \<open>
  Python's built-in \<^verbatim>\<open>max\<close> and \<^verbatim>\<open>min\<close> over an iterable: the first item is the
  candidate, a later item replaces it when it is strictly greater (smaller), and an
  empty iterable raises \<^verbatim>\<open>ValueError\<close>.
\<close>

fun max_from :: "real \<Rightarrow> real list \<Rightarrow> real" where
  "max_from m [] = m"
| "max_from m (x # xs) = max_from (if x > m then x else m) xs"

fun min_from :: "real \<Rightarrow> real list \<Rightarrow> real" where
  "min_from m [] = m"
| "min_from m (x # xs) = min_from (if x < m then x else m) xs"

definition py_max :: "real list \<Rightarrow> py_error + real" where
  "py_max xs = (case xs of [] \<Rightarrow> Inl ValueError | x # rest \<Rightarrow> Inr (max_from x rest))"

definition py_min :: "real list \<Rightarrow> py_error + real" where
  "py_min xs = (case xs of [] \<Rightarrow> Inl ValueError | x # rest \<Rightarrow> Inr (min_from x rest))"

text \<open>
  The class body defines \<^verbatim>\<open>firstPrincipal\<close> twice, at lines 47 and 55 of the source,
  with \<^verbatim>\<open>secondPrincipal\<close> between them. The three functions, as written:
\<close>

definition firstPrincipal_line47 :: "eigsolver \<Rightarrow> StressTensor \<Rightarrow> py_error + real" where
  "firstPrincipal_line47 eigvals self = py_max (principals eigvals self)"

definition secondPrincipal :: "eigsolver \<Rightarrow> StressTensor \<Rightarrow> py_error + real" where
  "secondPrincipal eigvals self =
     (let p = principals eigvals self in if 1 < length p then Inr (p ! 1) else Inl IndexError)"

definition firstPrincipal_line55 :: "eigsolver \<Rightarrow> StressTensor \<Rightarrow> py_error + real" where
  "firstPrincipal_line55 eigvals self = py_min (principals eigvals self)"

text \<open>
  A class body is executed from top to bottom, and each definition binds its name in
  the class namespace, replacing what the name was bound to before. The accessor
  \<^verbatim>\<open>firstPrincipal\<close> of an instance is whatever the name is bound to at the end.
\<close>

definition class_body :: "(string \<times> (eigsolver \<Rightarrow> StressTensor \<Rightarrow> py_error + real)) list" where
  "class_body =
     [(''firstPrincipal'', firstPrincipal_line47),
      (''secondPrincipal'', secondPrincipal),
      (''firstPrincipal'', firstPrincipal_line55)]"

definition bind_names :: "(string \<times> 'a) list \<Rightarrow> (string \<rightharpoonup> 'a)" where
  "bind_names defs = foldl (\<lambda>ns (name, f). ns(name \<mapsto> f)) Map.empty defs"

definition firstPrincipal :: "eigsolver \<Rightarrow> StressTensor \<Rightarrow> py_error + real" where
  "firstPrincipal eigvals self =
     (case bind_names class_body ''firstPrincipal'' of
        None \<Rightarrow> Inl AttributeError
      | Some f \<Rightarrow> f eigvals self)"

text \<open>
  \<^verbatim>\<open>eigenVector\<close> unpacks the result of \<^verbatim>\<open>eigvals\<close> into the two names
  \<^verbatim>\<open>val, vect\<close>. Unpacking iterates over the array of eigenvalues, and raises
  \<^verbatim>\<open>ValueError\<close> unless it has exactly two items; with two items, \<^verbatim>\<open>vect\<close> is the
  second eigenvalue.
\<close>

definition eigenVector :: "eigsolver \<Rightarrow> StressTensor \<Rightarrow> py_error + real" where
  "eigenVector eigvals self =
     (case eigvals (stressTensor self) of
        [val, vect] \<Rightarrow> Inr vect
      | _ \<Rightarrow> Inl ValueError)"

text \<open>
  A solver to run the accessors on diagonal tensors: the eigenvalues of a diagonal
  matrix are its diagonal entries. It appears in examples only.
\<close>

definition diag_eigvals :: eigsolver where
  "diag_eigvals m = map (\<lambda>i. m ! i ! i) [0 ..< length m]"

section \<open>Objects: scaling, addition, equality\<close>

text \<open>
  \<^verbatim>\<open>applyComponentKt\<close> assigns to the attributes of its receiver and \<^verbatim>\<open>__add__\<close>
  constructs an object, so both act on a store: the list of the tensor objects
  created so far, a reference being an index into it. A reference held by a Python
  program always points to a live object, that is \<open>r < length h\<close>.
\<close>

type_synonym ref = nat
type_synonym heap = "StressTensor list"

definition applyComponentKt ::
  "heap \<Rightarrow> ref \<Rightarrow> real \<Rightarrow> real \<Rightarrow> real \<Rightarrow> real \<Rightarrow> real \<Rightarrow> real \<Rightarrow> heap" where
  "applyComponentKt h self KTx KTy KTz KTxy KTyz KTZX =
     (let h1 = h[self := (h ! self)\<lparr>sx := sx (h ! self) * KTx\<rparr>];
          h2 = h1[self := (h1 ! self)\<lparr>sy := sy (h1 ! self) * KTy\<rparr>];
          h3 = h2[self := (h2 ! self)\<lparr>sz := sz (h2 ! self) * KTz\<rparr>];
          h4 = h3[self := (h3 ! self)\<lparr>sxy := sxy (h3 ! self) * KTxy\<rparr>];
          h5 = h4[self := (h4 ! self)\<lparr>syz := syz (h4 ! self) * KTyz\<rparr>];
          h6 = h5[self := (h5 ! self)\<lparr>szx := szx (h5 ! self) * KTZX\<rparr>]
      in h6)"

text \<open>Constructing an object appends it to the store and returns its reference.\<close>

definition alloc :: "heap \<Rightarrow> StressTensor \<Rightarrow> heap \<times> ref" where
  "alloc h obj = (h @ [obj], length h)"

definition StressTensor_add :: "heap \<Rightarrow> ref \<Rightarrow> ref \<Rightarrow> heap \<times> ref" where
  "StressTensor_add h self cls =
     (let new_sx = sx (h ! self) + sx (h ! cls);
          new_sy = sy (h ! self) + sy (h ! cls);
          new_sz = sz (h ! self) + sz (h ! cls);
          new_sxy = sxy (h ! self) + sxy (h ! cls);
          new_syz = syz (h ! self) + syz (h ! cls);
          new_szx = szx (h ! self) + szx (h ! cls)
      in alloc h (init new_sx new_sy new_sz new_sxy new_syz new_szx))"

text \<open>
  The operand of \<^verbatim>\<open>__eq__\<close> is any Python object: a finite map from the attribute
  names it has to their values. Reading an attribute the object does not have raises
  \<^verbatim>\<open>AttributeError\<close>.
\<close>

type_synonym pyobj = "string \<rightharpoonup> real"

definition getattr :: "pyobj \<Rightarrow> string \<Rightarrow> py_error + real" where
  "getattr obj name = (case obj name of None \<Rightarrow> Inl AttributeError | Some v \<Rightarrow> Inr v)"

text \<open>
  The condition of \<^verbatim>\<open>__eq__\<close> is a chain \<^verbatim>\<open>c1 and c2 and ...\<close> of comparisons
  \<^verbatim>\<open>self.a == value.a\<close>. Python evaluates it from the left and stops at the first
  comparison that is false: the operand's attributes after it are not read.
\<close>

fun and_chain :: "(real \<times> string) list \<Rightarrow> pyobj \<Rightarrow> py_error + bool" where
  "and_chain [] v = Inr True"
| "and_chain ((x, name) # rest) v =
     (case getattr v name of
        Inl e \<Rightarrow> Inl e
      | Inr y \<Rightarrow> if x = y then and_chain rest v else Inr False)"

definition StressTensor_eq :: "StressTensor \<Rightarrow> pyobj \<Rightarrow> py_error + bool" where
  "StressTensor_eq self v =
     (case and_chain [(sx self, ''sx''), (sy self, ''sy''), (sz self, ''sz''),
                      (sxy self, ''sxy''), (syz self, ''syz''), (szx self, ''szx'')] v of
        Inl e \<Rightarrow> Inl e
      | Inr c \<Rightarrow> if c then Inr True else Inr False)"

text \<open>The six attribute names, in the order of \<^verbatim>\<open>stressComponents\<close>.\<close>

definition attribute_names :: "string list" where
  "attribute_names = [''sx'', ''sy'', ''sz'', ''sxy'', ''syz'', ''szx'']"

text \<open>A tensor seen as a Python object: it has exactly the six attributes.\<close>

definition as_object :: "StressTensor \<Rightarrow> pyobj" where
  "as_object t = [''sx'' \<mapsto> sx t, ''sy'' \<mapsto> sy t, ''sz'' \<mapsto> sz t,
                  ''sxy'' \<mapsto> sxy t, ''syz'' \<mapsto> syz t, ''szx'' \<mapsto> szx t]"

section \<open>Properties of the views\<close>

lemma stressTensor_shape:
  "length (stressTensor t) = 3 \<and> list_all (\<lambda>row. length row = 3) (stressTensor t)"
  by (simp add: stressTensor_def)

text \<open>
  Claim C5. For every six-component input the matrix returned by \<^verbatim>\<open>stressTensor\<close>
  is symmetric: the entry in row i, column j equals the entry in row j, column i,
  for all indices i and j of the 3x3 matrix.
\<close>

theorem stressTensor_symmetric:
  assumes "i < 3" and "j < 3"
  shows "stressTensor t ! i ! j = stressTensor t ! j ! i"
proof -
  from assms have "i = 0 \<or> i = 1 \<or> i = 2" and "j = 0 \<or> j = 1 \<or> j = 2"
    by auto
  then show ?thesis
    by (auto simp: stressTensor_def)
qed

theorem stressTensor_symmetric_witness:
  "(0::nat) < 3 \<and> (2::nat) < 3 \<and>
   stressTensor (init 1 2 3 4 5 6) ! 0 ! 2 = stressTensor (init 1 2 3 4 5 6) ! 2 ! 0 \<and>
   stressTensor (init 1 2 3 4 5 6) ! 0 ! 2 = 6"
  using stressTensor_symmetric [of 0 2 "init 1 2 3 4 5 6"]
  by (simp add: stressTensor_def init_def)

section \<open>Properties of the equivalent stress\<close>

lemma weighted_sum_zero_iff:
  fixes n s :: real
  assumes "0 \<le> n" and "0 \<le> s"
  shows "0.5 * n + 3 * s = 0 \<longleftrightarrow> n = 0 \<and> s = 0"
  using assms by auto

lemma HuberStress_uniaxial: "HuberStress (init 100 0 0 0 0 0) = 100"
  by (simp add: HuberStress_def init_def)

text \<open>
  Claim C3. \<^verbatim>\<open>HuberStress\<close> is invariant under a uniform hydrostatic shift: adding
  the same scalar k to the three normal components sx, sy and sz, with the shear
  components kept, gives the same Huber stress, for every tensor and every k.
\<close>

theorem HuberStress_hydrostatic_shift:
  "HuberStress (t\<lparr>sx := sx t + k, sy := sy t + k, sz := sz t + k\<rparr>) = HuberStress t"
  by (simp add: HuberStress_def)

text \<open>
  Claim C6. For every tensor, \<^verbatim>\<open>HuberStress\<close> is zero exactly when the three
  normal components are equal and the three shear components are zero; and it is
  never negative.
\<close>

theorem HuberStress_zero_iff_isotropic:
  "(HuberStress t = 0 \<longleftrightarrow>
      sx t = sy t \<and> sy t = sz t \<and> sxy t = 0 \<and> syz t = 0 \<and> szx t = 0)
   \<and> 0 \<le> HuberStress t"
proof -
  let ?n = "(sx t - sy t)\<^sup>2 + (sy t - sz t)\<^sup>2 + (sz t - sx t)\<^sup>2"
  let ?s = "(sxy t)\<^sup>2 + (syz t)\<^sup>2 + (szx t)\<^sup>2"
  have n0: "0 \<le> ?n" and s0: "0 \<le> ?s" by simp_all
  have "HuberStress t = 0 \<longleftrightarrow> 0.5 * ?n + 3 * ?s = 0"
    by (simp add: HuberStress_def Let_def)
  also have "\<dots> \<longleftrightarrow> ?n = 0 \<and> ?s = 0"
    using n0 s0 by (rule weighted_sum_zero_iff)
  also have "\<dots> \<longleftrightarrow> sx t = sy t \<and> sy t = sz t \<and> sxy t = 0 \<and> syz t = 0 \<and> szx t = 0"
    by (auto simp: sum_power2_eq_zero_iff add_nonneg_eq_0_iff)
  finally have iff: "HuberStress t = 0 \<longleftrightarrow>
      sx t = sy t \<and> sy t = sz t \<and> sxy t = 0 \<and> syz t = 0 \<and> szx t = 0" .
  have "0 \<le> HuberStress t"
    by (simp add: HuberStress_def Let_def)
  with iff show ?thesis by blast
qed

section \<open>Properties of the combined-loading decomposition\<close>

lemma calcMises_nonneg: "0 \<le> calcMises x y z xy yz zx"
  by (simp add: calcMises_def)

lemma calculateWalker_example:
  "calculateWalker (init 2 0 0 0 0 0) (init 0 0 0 0 0 0) = Inr [1, 0, 0]"
  by (simp add: calculateWalker_def stressComponents_def calcMises_def init_def)

text \<open>
  Claim C1. For every pair of tensors a and b, \<^verbatim>\<open>calculateWalker\<close> forms the
  alternating components sa_i = (a_i - b_i)/2 of the six components and returns the
  alternating equivalent stress: the sign of each of sa_x, sa_y, sa_z times sqrt(2)/2
  times \<^verbatim>\<open>_calcMises\<close> of the six alternating components. The mean components
  (a_i + b_i)/2 and the mean equivalent stress have no part in the returned value.
\<close>

theorem calculateWalker_returns_alternating:
  "calculateWalker a b =
     (let s_ax = (sx a - sx b) / 2; s_ay = (sy a - sy b) / 2; s_az = (sz a - sz b) / 2;
          s_axy = (sxy a - sxy b) / 2; s_ayz = (syz a - syz b) / 2;
          s_azx = (szx a - szx b) / 2;
          m = calcMises s_ax s_ay s_az s_axy s_ayz s_azx
      in Inr [sgn s_ax * (sqrt 2 / 2) * m, sgn s_ay * (sqrt 2 / 2) * m,
              sgn s_az * (sqrt 2 / 2) * m])"
  by (simp add: calculateWalker_def stressComponents_def Let_def)

text \<open>
  Claim C7. For every tensor t, \<^verbatim>\<open>calculateWalker(t, t)\<close> yields an alternating
  equivalent stress of zero: all alternating components vanish, so every entry of
  the returned value is 0.
\<close>

theorem calculateWalker_self_zero:
  "calculateWalker t t = Inr [0, 0, 0]"
  by (simp add: calculateWalker_def stressComponents_def calcMises_def)

section \<open>Properties of the principal-stress accessors\<close>

lemma min_from_Min: "min_from m xs = Min (insert m (set xs))"
proof (induction xs arbitrary: m)
  case Nil
  show ?case by simp
next
  case (Cons x xs)
  have "Min (insert (if x < m then x else m) (set xs)) = Min (insert m (insert x (set xs)))"
    by (cases "set xs = {}") (auto simp: min_def Min_insert)
  with Cons show ?case by simp
qed

lemma py_min_Min: "py_min xs = (if xs = [] then Inl ValueError else Inr (Min (set xs)))"
  by (cases xs) (simp_all add: py_min_def min_from_Min)

lemma firstPrincipal_binding:
  "bind_names class_body ''firstPrincipal'' = Some firstPrincipal_line55"
  by (simp add: bind_names_def class_body_def)

lemma firstPrincipal_example:
  "firstPrincipal diag_eigvals (init 3 1 2 0 0 0) = Inr 1
   \<and> firstPrincipal_line47 diag_eigvals (init 3 1 2 0 0 0) = Inr 3"
  by (simp add: firstPrincipal_def firstPrincipal_binding firstPrincipal_line55_def
      firstPrincipal_line47_def py_min_def py_max_def principals_def diag_eigvals_def
      stressTensor_def init_def upt_rec)

text \<open>
  Claim C2. The second of the two definitions named \<^verbatim>\<open>firstPrincipal\<close> overrides the
  first, so for every tensor the accessor \<^verbatim>\<open>firstPrincipal\<close> returns the minimum of
  \<^verbatim>\<open>principals\<close>, not the maximum (\<^verbatim>\<open>min\<close> raises on an empty sequence).
\<close>

theorem firstPrincipal_is_min:
  "bind_names class_body ''firstPrincipal'' = Some firstPrincipal_line55
   \<and> firstPrincipal eigvals t =
       (if principals eigvals t = [] then Inl ValueError
        else Inr (Min (set (principals eigvals t))))"
  by (simp add: firstPrincipal_def firstPrincipal_binding firstPrincipal_line55_def py_min_Min)

text \<open>
  Claim C4 (the code departs from it). The claim has \<^verbatim>\<open>eigenVector\<close> return the matrix
  of eigenvectors. The accessor calls \<^verbatim>\<open>eigvals\<close>, which returns the eigenvalues
  alone, and unpacks them into two names: for the three eigenvalues of a 3x3 matrix
  the unpacking raises \<^verbatim>\<open>ValueError\<close>, and no matrix is returned.
\<close>

theorem eigenVector_raises:
  assumes "length (eigvals (stressTensor t)) = 3"
  shows "eigenVector eigvals t = Inl ValueError"
  using assms by (auto simp: eigenVector_def split: list.splits)

theorem eigenVector_raises_witness:
  "length (diag_eigvals (stressTensor (init 1 2 3 0 0 0))) = 3 \<and>
   diag_eigvals (stressTensor (init 1 2 3 0 0 0)) = [1, 2, 3] \<and>
   eigenVector diag_eigvals (init 1 2 3 0 0 0) = Inl ValueError"
proof -
  have l: "length (diag_eigvals (stressTensor (init 1 2 3 0 0 0))) = 3"
    by (simp add: diag_eigvals_def stressTensor_def)
  have v: "diag_eigvals (stressTensor (init 1 2 3 0 0 0)) = [1, 2, 3]"
    by (simp add: diag_eigvals_def stressTensor_def init_def upt_rec)
  from l v eigenVector_raises [of diag_eigvals "init 1 2 3 0 0 0"] show ?thesis by simp
qed

section \<open>Properties of scaling and addition\<close>

lemma applyComponentKt_at:
  assumes "self < length h"
  shows "applyComponentKt h self k1 k2 k3 k4 k5 k6 =
    h[self := (h ! self)\<lparr>sx := sx (h ! self) * k1, sy := sy (h ! self) * k2,
               sz := sz (h ! self) * k3, sxy := sxy (h ! self) * k4,
               syz := syz (h ! self) * k5, szx := szx (h ! self) * k6\<rparr>]"
  using assms by (simp add: applyComponentKt_def Let_def)

lemma applyComponentKt_others:
  assumes "self < length h" and "p \<noteq> self"
  shows "applyComponentKt h self k1 k2 k3 k4 k5 k6 ! p = h ! p"
  using assms by (simp add: applyComponentKt_at)

text \<open>
  Claim C8. \<^verbatim>\<open>applyComponentKt\<close> with all six factors equal to 1 leaves every
  component of the tensor unchanged. With a factor k for sx and 1 for the others,
  the new sx is k times the old sx, and sy, sz, sxy, syz and szx are unchanged.
\<close>

theorem applyComponentKt_frame:
  assumes "self < length h"
  shows "applyComponentKt h self 1 1 1 1 1 1 = h
    \<and> (let h' = applyComponentKt h self k 1 1 1 1 1
       in sx (h' ! self) = k * sx (h ! self) \<and> sy (h' ! self) = sy (h ! self)
        \<and> sz (h' ! self) = sz (h ! self) \<and> sxy (h' ! self) = sxy (h ! self)
        \<and> syz (h' ! self) = syz (h ! self) \<and> szx (h' ! self) = szx (h ! self))"
  using assms by (simp add: applyComponentKt_at Let_def list_update_same_conv)

theorem applyComponentKt_frame_witness:
  "(0::nat) < length [init 1 2 3 4 5 6]
   \<and> applyComponentKt [init 1 2 3 4 5 6] 0 1 1 1 1 1 1 = [init 1 2 3 4 5 6]
   \<and> applyComponentKt [init 1 2 3 4 5 6] 0 7 1 1 1 1 1 = [init 7 2 3 4 5 6]"
proof -
  have l: "(0::nat) < length [init 1 2 3 4 5 6]" by simp
  have e: "applyComponentKt [init 1 2 3 4 5 6] 0 7 1 1 1 1 1 = [init 7 2 3 4 5 6]"
    by (simp add: applyComponentKt_def init_def)
  from l e applyComponentKt_frame [OF l, of 7] show ?thesis by simp
qed

text \<open>
  Claim C9. For every pair of tensors a and b, \<^verbatim>\<open>a + b\<close> produces a new
  \<^verbatim>\<open>StressTensor\<close> whose six components are the sums of the components of a and b,
  and the components of neither operand are changed: the result is an object that
  did not exist before, and every object of the old store, a and b among them, is
  as it was.
\<close>

theorem StressTensor_add_new_object:
  assumes "self < length h" and "cls < length h"
  shows "(case StressTensor_add h self cls of (h', r) \<Rightarrow>
           \<not> r < length h \<and> r < length h'
         \<and> sx (h' ! r) = sx (h ! self) + sx (h ! cls)
         \<and> sy (h' ! r) = sy (h ! self) + sy (h ! cls)
         \<and> sz (h' ! r) = sz (h ! self) + sz (h ! cls)
         \<and> sxy (h' ! r) = sxy (h ! self) + sxy (h ! cls)
         \<and> syz (h' ! r) = syz (h ! self) + syz (h ! cls)
         \<and> szx (h' ! r) = szx (h ! self) + szx (h ! cls)
         \<and> h' ! self = h ! self \<and> h' ! cls = h ! cls
         \<and> take (length h) h' = h)"
  using assms by (simp add: StressTensor_add_def alloc_def init_def nth_append)

theorem StressTensor_add_new_object_witness:
  "(0::nat) < length [init 1 2 3 4 5 6, init 10 20 30 40 50 60]
   \<and> (1::nat) < length [init 1 2 3 4 5 6, init 10 20 30 40 50 60]
   \<and> StressTensor_add [init 1 2 3 4 5 6, init 10 20 30 40 50 60] 0 1 =
       ([init 1 2 3 4 5 6, init 10 20 30 40 50 60, init 11 22 33 44 55 66], 2)"
proof -
  let ?h = "[init 1 2 3 4 5 6, init 10 20 30 40 50 60]"
  have l0: "(0::nat) < length ?h" and l1: "(1::nat) < length ?h" by simp_all
  have e: "StressTensor_add ?h 0 1 = (?h @ [init 11 22 33 44 55 66], 2)"
    by (simp add: StressTensor_add_def alloc_def init_def)
  from l0 l1 e StressTensor_add_new_object [OF l0 l1] show ?thesis by simp
qed

section \<open>Properties of equality\<close>

lemma and_chain_error_iff:
  "and_chain ps v = Inl e \<longleftrightarrow>
     e = AttributeError \<and>
     (\<exists>i<length ps. v (snd (ps ! i)) = None
        \<and> (\<forall>j<i. v (snd (ps ! j)) = Some (fst (ps ! j))))"
proof (induction ps)
  case Nil
  show ?case by simp
next
  case (Cons p ps)
  obtain x n where p: "p = (x, n)" by (cases p)
  show ?case
  proof (cases "v n")
    case None
    then show ?thesis
      by (auto simp: p getattr_def)
  next
    case (Some y)
    show ?thesis
    proof (cases "x = y")
      case True
      with Some Cons show ?thesis
        by (simp add: p getattr_def Ex_less_Suc2 All_less_Suc2)
    next
      case False
      with Some show ?thesis
        by (auto simp: p getattr_def Ex_less_Suc2 All_less_Suc2)
    qed
  qed
qed

lemma and_chain_False_iff:
  "and_chain ps v = Inr False \<longleftrightarrow>
     (\<exists>i<length ps. (\<exists>y. v (snd (ps ! i)) = Some y \<and> y \<noteq> fst (ps ! i))
        \<and> (\<forall>j<i. v (snd (ps ! j)) = Some (fst (ps ! j))))"
proof (induction ps)
  case Nil
  show ?case by simp
next
  case (Cons p ps)
  obtain x n where p: "p = (x, n)" by (cases p)
  show ?case
  proof (cases "v n")
    case None
    then show ?thesis
      by (auto simp: p getattr_def Ex_less_Suc2 All_less_Suc2)
  next
    case (Some y)
    show ?thesis
    proof (cases "x = y")
      case True
      with Some Cons show ?thesis
        by (simp add: p getattr_def Ex_less_Suc2 All_less_Suc2)
    next
      case False
      with Some show ?thesis
        by (auto simp: p getattr_def)
    qed
  qed
qed

lemma and_chain_True_iff:
  "and_chain ps v = Inr True \<longleftrightarrow> (\<forall>i<length ps. v (snd (ps ! i)) = Some (fst (ps ! i)))"
proof (induction ps)
  case Nil
  show ?case by simp
next
  case (Cons p ps)
  obtain x n where p: "p = (x, n)" by (cases p)
  from Cons show ?case
    by (auto simp: p getattr_def All_less_Suc2 split: option.splits)
qed

lemma eq_chain_zip:
  "[(sx t, ''sx''), (sy t, ''sy''), (sz t, ''sz''),
    (sxy t, ''sxy''), (syz t, ''syz''), (szx t, ''szx'')]
   = zip (stressComponents t) attribute_names"
  by (simp add: stressComponents_def attribute_names_def)

lemma length_components: "length (stressComponents t) = 6" "length attribute_names = 6"
  by (simp_all add: stressComponents_def attribute_names_def)

lemma StressTensor_eq_cases:
  "StressTensor_eq t v = r \<longleftrightarrow> and_chain (zip (stressComponents t) attribute_names) v = r"
  unfolding StressTensor_eq_def eq_chain_zip
  by (cases "and_chain (zip (stressComponents t) attribute_names) v") auto

lemma StressTensor_eq_as_object: "StressTensor_eq a (as_object b) = Inr (a = b)"
  by (auto simp: StressTensor_eq_def as_object_def getattr_def)

text \<open>
  Claim C10, as the code has it. The comparison reads the operand's attributes in the
  order sx, sy, sz, sxy, syz, szx and stops at the first component that differs.
  It fails with an attribute-access error exactly when an attribute is missing and
  every attribute before it is present and equal to the receiver's component; it
  returns False exactly when a present attribute differs from the receiver's
  component and every attribute before it is present and equal; it returns True
  exactly when all six attributes are present and equal. So an operand that lacks an
  attribute never compares equal, and an operand that lacks sx always fails.
\<close>

theorem StressTensor_eq_outcomes:
  "(StressTensor_eq t v = Inl AttributeError \<longleftrightarrow>
      (\<exists>i<6. v (attribute_names ! i) = None
         \<and> (\<forall>j<i. v (attribute_names ! j) = Some (stressComponents t ! j))))
   \<and> (StressTensor_eq t v = Inr False \<longleftrightarrow>
      (\<exists>i<6. (\<exists>y. v (attribute_names ! i) = Some y \<and> y \<noteq> stressComponents t ! i)
         \<and> (\<forall>j<i. v (attribute_names ! j) = Some (stressComponents t ! j))))
   \<and> (StressTensor_eq t v = Inr True \<longleftrightarrow>
      (\<forall>i<6. v (attribute_names ! i) = Some (stressComponents t ! i)))"
proof (intro conjI)
  let ?ps = "zip (stressComponents t) attribute_names"
  have len: "length ?ps = 6"
    by (simp add: length_components)
  have nth: "fst (?ps ! i) = stressComponents t ! i \<and> snd (?ps ! i) = attribute_names ! i"
    if "i < 6" for i
    using that by (simp add: length_components)
  have below: "(\<forall>j<i. v (snd (?ps ! j)) = Some (fst (?ps ! j)))
      \<longleftrightarrow> (\<forall>j<i. v (attribute_names ! j) = Some (stressComponents t ! j))"
    if "i < 6" for i
    using that nth by (metis (no_types, lifting) less_trans)
  show "StressTensor_eq t v = Inl AttributeError \<longleftrightarrow>
      (\<exists>i<6. v (attribute_names ! i) = None
         \<and> (\<forall>j<i. v (attribute_names ! j) = Some (stressComponents t ! j)))"
    unfolding StressTensor_eq_cases and_chain_error_iff len
    using nth below by auto
  show "StressTensor_eq t v = Inr False \<longleftrightarrow>
      (\<exists>i<6. (\<exists>y. v (attribute_names ! i) = Some y \<and> y \<noteq> stressComponents t ! i)
         \<and> (\<forall>j<i. v (attribute_names ! j) = Some (stressComponents t ! j)))"
    unfolding StressTensor_eq_cases and_chain_False_iff len
    using nth below by auto
  show "StressTensor_eq t v = Inr True \<longleftrightarrow>
      (\<forall>i<6. v (attribute_names ! i) = Some (stressComponents t ! i))"
    unfolding StressTensor_eq_cases and_chain_True_iff len
    using nth by auto
qed

text \<open>
  An operand that has sx alone, with a value other than the receiver's: the operand
  lacks sy, and the comparison returns False without an error, since the chain stops
  at sx.
\<close>

theorem StressTensor_eq_short_circuit_counterexample:
  "[''sx'' \<mapsto> 2::real] ''sy'' = None
   \<and> StressTensor_eq (init 1 0 0 0 0 0) [''sx'' \<mapsto> 2] = Inr False
   \<and> StressTensor_eq (init 1 0 0 0 0 0) [''sx'' \<mapsto> 2] \<noteq> Inl AttributeError"
  by (simp add: StressTensor_eq_def getattr_def init_def)

theorem StressTensor_eq_outcomes_witness:
  "[''sx'' \<mapsto> 1::real, ''sy'' \<mapsto> 2] ''sz'' = None
   \<and> StressTensor_eq (init 1 2 3 4 5 6) [''sx'' \<mapsto> 1, ''sy'' \<mapsto> 2] = Inl AttributeError
   \<and> StressTensor_eq (init 1 2 3 4 5 6) [''sx'' \<mapsto> 1, ''sy'' \<mapsto> 5] = Inr False
   \<and> StressTensor_eq (init 1 2 3 4 5 6) (as_object (init 1 2 3 4 5 6)) = Inr True"
proof -
  let ?t = "init 1 2 3 4 5 6"
  let ?v = "[''sx'' \<mapsto> 1::real, ''sy'' \<mapsto> 2]"
  let ?w = "[''sx'' \<mapsto> 1::real, ''sy'' \<mapsto> 5]"
  have "?v (attribute_names ! 2) = None
      \<and> (\<forall>j<2. ?v (attribute_names ! j) = Some (stressComponents ?t ! j))"
    by (simp add: attribute_names_def stressComponents_def init_def less_Suc_eq numeral_2_eq_2)
  then have "\<exists>i<6. ?v (attribute_names ! i) = None
      \<and> (\<forall>j<i. ?v (attribute_names ! j) = Some (stressComponents ?t ! j))"
    by (intro exI [of _ 2]) simp
  with StressTensor_eq_outcomes [of ?t ?v]
  have a: "StressTensor_eq ?t ?v = Inl AttributeError"
    by blast
  have "(\<exists>y. ?w (attribute_names ! 1) = Some y \<and> y \<noteq> stressComponents ?t ! 1)
      \<and> (\<forall>j<1. ?w (attribute_names ! j) = Some (stressComponents ?t ! j))"
    by (simp add: attribute_names_def stressComponents_def init_def)
  then have "\<exists>i<6. (\<exists>y. ?w (attribute_names ! i) = Some y \<and> y \<noteq> stressComponents ?t ! i)
      \<and> (\<forall>j<i. ?w (attribute_names ! j) = Some (stressComponents ?t ! j))"
    by (intro exI [of _ 1]) simp
  with StressTensor_eq_outcomes [of ?t ?w]
  have b: "StressTensor_eq ?t ?w = Inr False"
    by blast
  have "\<forall>i<6. as_object ?t (attribute_names ! i) = Some (stressComponents ?t ! i)"
    by (simp add: attribute_names_def stressComponents_def as_object_def
        less_Suc_eq eval_nat_numeral)
  with StressTensor_eq_outcomes [of ?t "as_object ?t"]
  have c: "StressTensor_eq ?t (as_object ?t) = Inr True"
    by blast
  from a b c show ?thesis by simp
qed

end
